theory Spec2Isabelle
  imports Complex_Main "HOL-Library.Word" "HOL-Library.Signed_Division"
begin

unbundle bit_operations_syntax

section \<open>Machine integers and constants\<close>

text \<open>
  The C types \<open>int\<close> and \<open>int64_t\<close> of \<open>libavformat/segment.c\<close> are words of 32 and
  64 bits; \<open>sint\<close> reads them as two's complement, and \<open>+\<close>, \<open>-\<close>, \<open>*\<close> wrap around.
  The C type \<open>double\<close> is idealised as \<open>real\<close>: rounding is not modelled.
\<close>

type_synonym cint = "32 word"
type_synonym int64 = "64 word"

text \<open>The operator \<open>%\<close> of C on \<open>int\<close>: the remainder of the truncating division.\<close>

definition c_rem :: "cint \<Rightarrow> cint \<Rightarrow> cint" where
  "c_rem a b = word_of_int (sint a smod sint b)"

text \<open>Constants of headers that are not part of \<open>segment.c\<close>, with their usual values.\<close>

definition INT64_MAX :: int64 where
  "INT64_MAX = 9223372036854775807"

definition AV_NOPTS_VALUE :: int64 where
  "AV_NOPTS_VALUE = - 9223372036854775808"

definition AV_PKT_FLAG_KEY :: cint where
  "AV_PKT_FLAG_KEY = 1"

definition EINVAL :: cint where
  "EINVAL = 22"

definition ENOMEM :: cint where
  "ENOMEM = 12"

definition AVERROR :: "cint \<Rightarrow> cint" where
  "AVERROR e = - e"

definition AVERROR_MUXER_NOT_FOUND :: cint where
  "AVERROR_MUXER_NOT_FOUND = - 1481985528"

section \<open>Data model\<close>

datatype AVMediaType = AVMEDIA_TYPE_VIDEO | AVMEDIA_TYPE_AUDIO | AVMEDIA_TYPE_DATA

record AVRational =
  num :: cint
  den :: cint

definition AV_TIME_BASE_Q :: AVRational where
  "AV_TIME_BASE_Q = \<lparr>num = 1, den = 1000000\<rparr>"

text \<open>\<open>av_q2d\<close> is \<open>a.num / (double) a.den\<close>.\<close>

definition av_q2d :: "AVRational \<Rightarrow> real" where
  "av_q2d a = real_of_int (sint (num a)) / real_of_int (sint (den a))"

text \<open>\<open>FFMAX(a, b)\<close> is \<open>((a) > (b) ? (a) : (b))\<close>.\<close>

definition FFMAX :: "real \<Rightarrow> real \<Rightarrow> real" where
  "FFMAX a b = (if a > b then a else b)"

text \<open>A stream, as far as the muxer reads it: \<open>st->codec->codec_type\<close> and \<open>st->time_base\<close>.\<close>

record AVStream =
  codec_type :: AVMediaType
  time_base :: AVRational

text \<open>A packet; \<open>duration\<close> is the value after its conversion to \<open>int64_t\<close>.\<close>

record AVPacket =
  stream_index :: cint
  pts :: int64
  duration :: int64
  flags :: cint

text \<open>
  The fields of \<open>AVFormatContext\<close> that the muxer touches: \<open>nb_streams\<close> is the length
  of \<open>streams\<close>, \<open>pb\<close> says whether the byte sink is open, \<open>priv_data\<close> whether the
  private data of the inner muxer is allocated.
\<close>

record AVFormatContext =
  filename :: string
  streams :: "AVStream list"
  pb :: bool
  priv_data :: bool

text \<open>
  \<open>SegmentContext\<close>. A \<open>char *\<close> option is \<open>None\<close> when it is \<open>NULL\<close>; \<open>times\<close> is
  \<open>None\<close> when the array pointer is \<open>NULL\<close>; \<open>list_pb\<close> says whether the list file
  is open.
\<close>

record SegmentContext =
  number :: cint
  avf :: AVFormatContext
  format :: "string option"
  list :: "string option"
  list_size :: cint
  list_pb :: bool
  wrap :: cint
  time_str :: "string option"
  time :: int64
  times_str :: "string option"
  times :: "int64 list option"
  delta_str :: "string option"
  delta :: int64
  nb_times :: cint
  has_video :: cint
  start_time :: real
  end_time :: real

section \<open>Collaborators and their trace\<close>

datatype log_msg =
    Could_not_allocate
  | Invalid_time_spec string
  | Time_greater int64 int64
  | Invalid_template string
  | Failure_starting string
  | Failure_ending string
  | Invalid_time_option string
  | Invalid_delta_option string
  | More_than_one_video
  | Format_not_supported
  | Next_segment cint int64

text \<open>
  Every call of a collaborator is recorded, in order, with the value it returned.
  \<open>Avio_open\<close>, \<open>Avio_close\<close> are the calls on the sink of a segment (\<open>oc->pb\<close>),
  \<open>List_open\<close>, \<open>List_close\<close>, \<open>List_printf\<close>, \<open>List_flush\<close> those on the list
  file (\<open>seg->list_pb\<close>).
\<close>

datatype event =
    Av_log log_msg
  | Write_trailer string cint
  | Write_header string cint
  | Write_packet string AVPacket cint
  | Avio_open string cint
  | Avio_close string
  | List_open string cint
  | List_close
  | List_printf string real real
  | List_flush
  | Av_mallocz bool
  | Opt_set_defaults
  | Opt_free
  | Freep_priv_data
  | Free_context

text \<open>
  The collaborators are outside \<open>segment.c\<close>: the inner muxer \<open>oc->oformat\<close> with its
  three entry points (\<open>write_trailer\<close> may be \<open>NULL\<close>), the byte I/O layer, the
  allocator and the parsers. What each call returns is a parameter; the \<open>nat\<close>
  argument is the number of calls recorded so far, so that two calls of the same
  function may return different values.
\<close>

record collaborators =
  write_header :: "nat \<Rightarrow> cint"
  write_packet :: "nat \<Rightarrow> AVPacket \<Rightarrow> cint"
  write_trailer :: "(nat \<Rightarrow> cint) option"
  priv_data_size :: cint
  priv_class :: bool
  nofile :: bool
  avio_open2 :: "nat \<Rightarrow> string \<Rightarrow> cint"
  av_mallocz :: "nat \<Rightarrow> bool"
  av_realloc_f :: bool
  av_get_frame_filename :: "string \<Rightarrow> cint \<Rightarrow> string option"
  av_parse_time :: "string \<Rightarrow> cint \<times> int64"
  avformat_alloc_context :: bool
  av_guess_format :: bool
  avformat_write_header :: "nat \<Rightarrow> cint"

type_synonym state = "SegmentContext \<times> event list"

text \<open>
  The contents of the list file after a trace: opening with \<open>AVIO_FLAG_WRITE\<close>
  truncates the file, \<open>avio_printf\<close> appends one record.
\<close>

fun list_file :: "event list \<Rightarrow> (string \<times> real \<times> real) list \<Rightarrow> (string \<times> real \<times> real) list" where
  "list_file [] acc = acc"
| "list_file (List_open f r # es) acc = list_file es (if 0 \<le>s r then [] else acc)"
| "list_file (List_printf f a b # es) acc = list_file es (acc @ [(f, a, b)])"
| "list_file (e # es) acc = list_file es acc"

text \<open>
  Modelled from the spec: \<open>av_compare_ts\<close> (libavutil/mathematics.c) compares the
  timestamp \<open>ts_a\<close> in units of \<open>tb_a\<close> with \<open>ts_b\<close> in units of \<open>tb_b\<close> and returns
  -1, 0 or 1; the comparison is exact, on time bases with positive denominators.
\<close>

definition av_compare_ts :: "int64 \<Rightarrow> AVRational \<Rightarrow> int64 \<Rightarrow> AVRational \<Rightarrow> cint" where
  "av_compare_ts ts_a tb_a ts_b tb_b =
     (let a = sint (num tb_a) * sint (den tb_b);
          b = sint (num tb_b) * sint (den tb_a)
      in if sint ts_a * a < sint ts_b * b then - 1
         else if sint ts_a * a > sint ts_b * b then 1 else 0)"

section \<open>parse_times\<close>

text \<open>\<open>strchr(p, ',') + 1\<close>; \<open>None\<close> when \<open>p\<close> holds no comma (the C code would add 1 to \<open>NULL\<close>).\<close>

definition after_comma :: "string \<Rightarrow> string option" where
  "after_comma p = (case dropWhile (\<lambda>c. c \<noteq> CHR '','') p of [] \<Rightarrow> None | c # r \<Rightarrow> Some r)"

text \<open>The first loop: \<open>*nb_times\<close> is one more than the number of commas.\<close>

definition count_times :: "string \<Rightarrow> cint" where
  "count_times str = word_of_nat (Suc (length (filter (\<lambda>c. c = CHR '','') str)))"

text \<open>
  The second loop, from index \<open>i\<close> with the pointer \<open>p\<close> and the entries \<open>ts\<close> stored
  so far. The result is the return value, the array and the messages logged; \<open>None\<close>
  stands for the undefined behaviour of \<open>strchr\<close> returning \<open>NULL\<close>.
\<close>

function parse_times_loop ::
  "(string \<Rightarrow> cint \<times> int64) \<Rightarrow> string \<Rightarrow> nat \<Rightarrow> nat \<Rightarrow> string \<Rightarrow> int64 list
    \<Rightarrow> (cint \<times> int64 list \<times> log_msg list) option" where
  "parse_times_loop parse str nb i p ts =
     (if i < nb then
        (case (if i \<noteq> 0 then after_comma p else Some str) of
           None \<Rightarrow> None
         | Some p' \<Rightarrow>
            (let (ret, t) = parse p' in
             if ret <s 0 then Some (AVERROR EINVAL, ts, [Invalid_time_spec p'])
             else if i \<noteq> 0 \<and> sint t < sint (ts ! (i - 1))
               then Some (AVERROR EINVAL, ts @ [t], [Time_greater t (ts ! (i - 1))])
             else parse_times_loop parse str nb (Suc i) p' (ts @ [t])))
      else Some (0, ts, []))"
  by pat_completeness auto
termination
  by (relation "measure (\<lambda>(parse, str, nb, i, p, ts). nb - i)") auto

declare parse_times_loop.simps [simp del]

text \<open>\<open>parse_times\<close>: the return value, \<open>*times\<close>, \<open>*nb_times\<close> and the messages logged.\<close>

definition parse_times ::
  "collaborators \<Rightarrow> string \<Rightarrow> (cint \<times> int64 list option \<times> cint \<times> log_msg list) option" where
  "parse_times c str =
     (let nb = count_times str in
      if \<not> av_realloc_f c then Some (AVERROR ENOMEM, None, nb, [Could_not_allocate])
      else (case parse_times_loop (av_parse_time c) str (nat (sint nb)) 0 str [] of
              None \<Rightarrow> None
            | Some (ret, ts, msgs) \<Rightarrow> Some (ret, Some ts, nb, msgs)))"

section \<open>segment_start and segment_end\<close>

text \<open>
  \<open>segment_start\<close>. The counter is reduced modulo \<open>wrap\<close> when \<open>wrap\<close> is not zero,
  then used for the file name and incremented (\<open>seg->number++\<close>), whatever
  \<open>av_get_frame_filename\<close> returns. The first argument of \<open>segment_start\<close> is the file
  name template \<open>s->filename\<close>.
\<close>

definition segment_start :: "collaborators \<Rightarrow> string \<Rightarrow> state \<Rightarrow> cint \<times> state" where
  "segment_start c template s0 =
     (let (seg0, ev) = s0;
          n = (if wrap seg0 \<noteq> 0 then c_rem (number seg0) (wrap seg0) else number seg0);
          seg1 = seg0\<lparr>number := n + 1\<rparr>
      in case av_get_frame_filename c template n of
           None \<Rightarrow>
             (AVERROR EINVAL, (seg1, ev @ [Av_log (Invalid_template template)]))
         | Some name \<Rightarrow>
            (let oc1 = (avf seg1)\<lparr>filename := name\<rparr>;
                 err = avio_open2 c (length ev) name;
                 ev1 = ev @ [Avio_open name err]
             in if err <s 0 then (err, (seg1\<lparr>avf := oc1\<rparr>, ev1))
                else
                 (let oc2 = oc1\<lparr>pb := True\<rparr> in
                  if \<not> priv_data oc2 \<and> 0 <s priv_data_size c \<and> \<not> av_mallocz c (length ev1)
                  then (AVERROR ENOMEM,
                        (seg1\<lparr>avf := oc2\<lparr>pb := False\<rparr>\<rparr>,
                         ev1 @ [Av_mallocz False, Avio_close name]))
                  else
                   (let (oc3, ev2) =
                          (if \<not> priv_data oc2 \<and> 0 <s priv_data_size c
                           then (oc2\<lparr>priv_data := True\<rparr>,
                                 ev1 @ [Av_mallocz True] @
                                   (if priv_class c then [Opt_set_defaults] else []))
                           else (oc2, ev1));
                        err2 = write_header c (length ev2);
                        ev3 = ev2 @ [Write_header name err2]
                    in if err2 <s 0
                       then (err2,
                             (seg1\<lparr>avf := oc3\<lparr>pb := False, priv_data := False\<rparr>\<rparr>,
                              ev3 @ [Av_log (Failure_starting name), Avio_close name,
                                     Freep_priv_data]))
                       else (0, (seg1\<lparr>avf := oc3\<rparr>, ev3))))))"

text \<open>
  \<open>segment_end\<close>. The variable \<open>ret\<close> first holds what \<open>write_trailer\<close> returned (0 when
  the entry point is \<open>NULL\<close>); when the list file is rotated, \<open>ret\<close> is assigned what
  \<open>avio_open2\<close> returned.
\<close>

definition segment_end :: "collaborators \<Rightarrow> state \<Rightarrow> cint \<times> state" where
  "segment_end c s0 =
     (let (seg, ev) = s0;
          oc = avf seg;
          (ret1, ev1) =
            (case write_trailer c of
               None \<Rightarrow> (0, ev)
             | Some f \<Rightarrow> (f (length ev), ev @ [Write_trailer (filename oc) (f (length ev))]));
          ev2 = (if ret1 <s 0 then ev1 @ [Av_log (Failure_ending (filename oc))] else ev1);
          record = [List_printf (filename oc) (start_time seg) (end_time seg), List_flush];
          (ret, seg3, ev3) =
            (case list seg of
               None \<Rightarrow> (ret1, seg, ev2)
             | Some name \<Rightarrow>
                 (if list_size seg \<noteq> 0 \<and> c_rem (number seg) (list_size seg) = 0
                  then
                   (let ev' = ev2 @ [List_close];
                        r = avio_open2 c (length ev') name
                    in if r <s 0
                       then (r, seg\<lparr>list_pb := False\<rparr>, ev' @ [List_open name r])
                       else (r, seg\<lparr>list_pb := True\<rparr>, ev' @ [List_open name r] @ record))
                  else (ret1, seg, ev2 @ record)));
          ev4 = ev3 @ [Avio_close (filename oc)] @
                  (if priv_class c then [Opt_free] else []) @ [Freep_priv_data]
      in (ret, (seg3\<lparr>avf := (avf seg3)\<lparr>pb := False, priv_data := False\<rparr>\<rparr>, ev4)))"

section \<open>The muxer's entry points\<close>

text \<open>
  The state of the private context before \<open>seg_write_header\<close>: the host allocates it
  filled with zeroes and then stores the options (the allocation is not in
  \<open>segment.c\<close>; the default of \<open>segment_time\<close> is the string \<open>2\<close>).
\<close>

definition zero_context :: SegmentContext where
  "zero_context =
     \<lparr>number = 0,
      avf = \<lparr>filename = [], streams = [], pb = False, priv_data = False\<rparr>,
      format = None, list = None, list_size = 0, list_pb = False, wrap = 0,
      time_str = Some ''2'', time = 0, times_str = None, times = None,
      delta_str = None, delta = 0, nb_times = 0, has_video = 0,
      start_time = 0, end_time = 0\<rparr>"

text \<open>The loop of \<open>seg_write_header\<close> that counts the video streams into \<open>has_video\<close>.\<close>

fun count_video :: "AVStream list \<Rightarrow> cint \<Rightarrow> cint" where
  "count_video [] hv = hv"
| "count_video (st # sts) hv =
     count_video sts (hv + (if codec_type st = AVMEDIA_TYPE_VIDEO then 1 else 0))"

text \<open>
  The code after the label \<open>fail\<close> of \<open>seg_write_header\<close>, run when \<open>ret\<close> is not zero:
  the inner context \<open>oc\<close> loses its streams and is freed (twice). The flag \<open>assigned\<close>
  says whether \<open>seg->avf\<close> already points to \<open>oc\<close>.
\<close>

definition header_fail :: "bool \<Rightarrow> cint \<Rightarrow> state \<Rightarrow> cint \<times> state" where
  "header_fail assigned ret s0 =
     (let (seg, ev) = s0 in
      if ret \<noteq> 0
      then (ret,
            ((if assigned then seg\<lparr>avf := (avf seg)\<lparr>streams := []\<rparr>\<rparr> else seg)
               \<lparr>list_pb := False\<rparr>,
             ev @ [Free_context] @ (if list seg \<noteq> None then [List_close] else [])
                @ [Free_context]))
      else (ret, (seg, ev)))"

text \<open>
  \<open>seg_write_header\<close> on the host context \<open>s\<close> (its \<open>filename\<close> is the template, its
  \<open>streams\<close> are lent to the inner context). \<open>None\<close> is the undefined behaviour of
  \<open>parse_times\<close>.
\<close>

definition seg_write_header ::
  "collaborators \<Rightarrow> AVFormatContext \<Rightarrow> state \<Rightarrow> (cint \<times> state) option" where
  "seg_write_header c s s0 =
     (let (seg0, ev) = s0;
          seg1 = seg0\<lparr>number := 0\<rparr>
      in if \<not> avformat_alloc_context c then Some (AVERROR ENOMEM, (seg1, ev))
      else
       (let oc = \<lparr>filename = [], streams = [], pb = False, priv_data = False\<rparr>;
            parsed = (case times_str seg1 of
                        None \<Rightarrow> Some (0, times seg1, nb_times seg1, [])
                      | Some str \<Rightarrow> parse_times c str)
        in case parsed of
             None \<Rightarrow> None
           | Some (ret, ts, nb, msgs) \<Rightarrow>
              (let seg2 = seg1\<lparr>times := ts, nb_times := nb\<rparr>;
                   ev2 = ev @ map Av_log msgs
               in if ret <s 0 then Some (ret, (seg2, ev2))
               else
                (let (rt, t) = (case time_str seg2 of
                                  None \<Rightarrow> (0, time seg2)
                                | Some str \<Rightarrow> av_parse_time c str);
                     seg3 = seg2\<lparr>time := t\<rparr>
                 in if rt <s 0
                    then Some (rt, (seg3, ev2 @ [Av_log (Invalid_time_option (the (time_str seg2)))]))
                 else
                  (let (rd, d) = (case delta_str seg3 of
                                    None \<Rightarrow> (0, delta seg3)
                                  | Some str \<Rightarrow> av_parse_time c str);
                       seg4 = seg3\<lparr>delta := d\<rparr>
                   in if rd <s 0
                      then Some (rd, (seg4,
                                  ev2 @ [Av_log (Invalid_delta_option (the (delta_str seg3)))]))
                   else
                    (let rl = (case list seg4 of
                                 None \<Rightarrow> 0
                               | Some name \<Rightarrow> avio_open2 c (length ev2) name);
                         ev3 = (case list seg4 of
                                  None \<Rightarrow> ev2
                                | Some name \<Rightarrow> ev2 @ [List_open name rl]);
                         seg5 = seg4\<lparr>list_pb := (list seg4 \<noteq> None \<and> \<not> rl <s 0)\<rparr>
                     in if rl <s 0 then Some (header_fail False rl (seg5, ev3))
                     else
                      (let seg6 = seg5\<lparr>has_video := count_video (streams s) (has_video seg5)\<rparr>;
                           ev4 = (if 1 <s has_video seg6
                                  then ev3 @ [Av_log More_than_one_video] else ev3)
                       in if \<not> av_guess_format c
                          then Some (header_fail False AVERROR_MUXER_NOT_FOUND (seg6, ev4))
                          else if nofile c
                          then Some (header_fail False (AVERROR EINVAL)
                                       (seg6, ev4 @ [Av_log Format_not_supported]))
                          else
                           (let seg7 = seg6\<lparr>avf := oc\<lparr>streams := streams s\<rparr>\<rparr>;
                                n = number seg7;
                                seg8 = seg7\<lparr>number := n + 1\<rparr>
                            in case av_get_frame_filename c (filename s) n of
                                 None \<Rightarrow> Some (header_fail True (AVERROR EINVAL) (seg8, ev4))
                               | Some name \<Rightarrow>
                                  (let seg9 = seg8\<lparr>avf := (avf seg8)\<lparr>filename := name\<rparr>\<rparr>;
                                       ro = avio_open2 c (length ev4) name;
                                       ev5 = ev4 @ [Avio_open name ro]
                                   in if ro <s 0 then Some (header_fail True ro (seg9, ev5))
                                   else
                                    (let seg10 = seg9\<lparr>avf := (avf seg9)\<lparr>pb := True\<rparr>\<rparr>;
                                         rh = avformat_write_header c (length ev5);
                                         ev6 = ev5 @ [Write_header name rh]
                                     in if rh <s 0
                                        then Some (header_fail True rh
                                               (seg10\<lparr>avf := (avf seg10)\<lparr>pb := False\<rparr>\<rparr>,
                                                ev6 @ [Avio_close name]))
                                        else Some (header_fail True rh (seg10, ev6))))))))))))"

text \<open>
  The local \<open>end_pts\<close> of \<open>seg_write_packet\<close>. \<open>None\<close> is the undefined behaviour of
  reading \<open>seg->times\<close> outside the array.
\<close>

definition end_pts :: "SegmentContext \<Rightarrow> int64 option" where
  "end_pts seg =
     (case times seg of
        Some ts \<Rightarrow>
          (if number seg \<le>s nb_times seg
           then (if 1 \<le> sint (number seg) \<and> sint (number seg) - 1 < int (length ts)
                 then Some (ts ! nat (sint (number seg) - 1)) else None)
           else Some INT64_MAX)
      | None \<Rightarrow> Some (time seg * scast (number seg)))"

text \<open>The condition of the \<open>if\<close> of \<open>seg_write_packet\<close>, for the stream \<open>st\<close> of the packet.\<close>

definition cut_condition :: "SegmentContext \<Rightarrow> AVStream \<Rightarrow> AVPacket \<Rightarrow> int64 \<Rightarrow> bool" where
  "cut_condition seg st pkt e \<longleftrightarrow>
     ((has_video seg \<noteq> 0 \<and> codec_type st = AVMEDIA_TYPE_VIDEO) \<or> has_video seg = 0) \<and>
     0 \<le>s av_compare_ts (pts pkt) (time_base st) (e - delta seg) AV_TIME_BASE_Q \<and>
     flags pkt AND AV_PKT_FLAG_KEY \<noteq> 0"

text \<open>The code after the label \<open>fail\<close> of \<open>seg_write_packet\<close>.\<close>

definition packet_fail :: "cint \<Rightarrow> state \<Rightarrow> cint \<times> state" where
  "packet_fail ret s0 =
     (let (seg, ev) = s0 in
      if ret <s 0
      then (ret, (seg\<lparr>avf := (avf seg)\<lparr>streams := []\<rparr>, list_pb := False\<rparr>,
                  ev @ (if list seg \<noteq> None then [List_close] else []) @ [Free_context]))
      else (ret, (seg, ev)))"

text \<open>The call \<open>oc->oformat->write_packet(oc, pkt)\<close> and what follows it.\<close>

definition packet_write :: "collaborators \<Rightarrow> AVPacket \<Rightarrow> state \<Rightarrow> cint \<times> state" where
  "packet_write c pkt s0 =
     (let (seg, ev) = s0;
          ret = write_packet c (length ev) pkt
      in packet_fail ret (seg, ev @ [Write_packet (filename (avf seg)) pkt ret]))"

text \<open>
  \<open>seg_write_packet\<close> on the host context \<open>s\<close>. \<open>None\<close> is undefined behaviour: a stream
  index outside \<open>oc->streams\<close>, or \<open>end_pts\<close> read outside \<open>seg->times\<close>.
\<close>

definition seg_write_packet ::
  "collaborators \<Rightarrow> AVFormatContext \<Rightarrow> state \<Rightarrow> AVPacket \<Rightarrow> (cint \<times> state) option" where
  "seg_write_packet c s s0 pkt =
     (let (seg, ev) = s0;
          oc = avf seg;
          i = sint (stream_index pkt)
      in if i < 0 \<or> int (length (streams oc)) \<le> i then None
      else
       (case end_pts seg of
          None \<Rightarrow> None
        | Some e \<Rightarrow>
           (let st = streams oc ! nat i in
            if cut_condition seg st pkt e
            then
             (let ev0 = ev @ [Av_log (Next_segment (stream_index pkt) (pts pkt))];
                  (r1, s1) = segment_end c (seg, ev0)
              in if r1 <s 0 then Some (packet_fail r1 s1)
              else
               (let (r2, s2) = segment_start c (filename s) s1 in
                if r2 <s 0 then Some (packet_fail r2 s2)
                else
                 Some (packet_write c pkt
                   ((fst s2)\<lparr>start_time :=
                       real_of_int (sint (pts pkt)) * av_q2d (time_base st)\<rparr>, snd s2))))
            else if pts pkt \<noteq> AV_NOPTS_VALUE
            then
             Some (packet_write c pkt
               (seg\<lparr>end_time :=
                   FFMAX (end_time seg)
                     (real_of_int (sint (pts pkt + duration pkt)) * av_q2d (time_base st))\<rparr>,
                ev))
            else Some (packet_write c pkt (seg, ev)))))"

text \<open>\<open>seg_write_trailer\<close>.\<close>

definition seg_write_trailer :: "collaborators \<Rightarrow> state \<Rightarrow> cint \<times> state" where
  "seg_write_trailer c s0 =
     (let (ret, (seg, ev)) = segment_end c s0 in
      (ret,
       (seg\<lparr>list_pb := False, delta_str := None, time_str := None, times_str := None,
            times := None, avf := (avf seg)\<lparr>streams := []\<rparr>\<rparr>,
        ev @ (if list seg \<noteq> None then [List_close] else []) @ [Free_context])))"


section \<open>Sample collaborators\<close>

text \<open>
  A concrete set of collaborators for the examples: every call succeeds, the file name
  of segment \<open>n\<close> is the template followed by \<open>n\<close> letters, and a time is a run of
  decimal digits (seconds), read up to the first other character.
\<close>

definition sample_filename :: "string \<Rightarrow> cint \<Rightarrow> string option" where
  "sample_filename template n = Some (template @ replicate (unat n) CHR ''i'')"

definition is_digit :: "char \<Rightarrow> bool" where
  "is_digit ch \<longleftrightarrow> 48 \<le> (of_char ch :: nat) \<and> (of_char ch :: nat) \<le> 57"

definition sample_parse_time :: "string \<Rightarrow> cint \<times> int64" where
  "sample_parse_time p =
     (let ds = takeWhile is_digit p in
      if ds = [] then (AVERROR EINVAL, AV_NOPTS_VALUE)
      else (0, word_of_nat (fold (\<lambda>ch a. 10 * a + (of_char ch - 48)) ds 0) * 1000000))"

definition sample_collaborators :: collaborators where
  "sample_collaborators =
     \<lparr>write_header = (\<lambda>k. 0), write_packet = (\<lambda>k pkt. 0), write_trailer = Some (\<lambda>k. 0),
      priv_data_size = 8, priv_class = True, nofile = False,
      avio_open2 = (\<lambda>k name. 0), av_mallocz = (\<lambda>k. True), av_realloc_f = True,
      av_get_frame_filename = sample_filename, av_parse_time = sample_parse_time,
      avformat_alloc_context = True, av_guess_format = True,
      avformat_write_header = (\<lambda>k. 0)\<rparr>"

definition video_stream :: AVStream where
  "video_stream = \<lparr>codec_type = AVMEDIA_TYPE_VIDEO, time_base = \<lparr>num = 1, den = 25\<rparr>\<rparr>"

definition audio_stream :: AVStream where
  "audio_stream = \<lparr>codec_type = AVMEDIA_TYPE_AUDIO, time_base = \<lparr>num = 1, den = 48000\<rparr>\<rparr>"

definition sample_host :: AVFormatContext where
  "sample_host =
     \<lparr>filename = ''out'', streams = [video_stream, audio_stream], pb = False, priv_data = False\<rparr>"

text \<open>
  The context that \<open>seg_write_header\<close> leaves for the sample host with the default
  options, and two packets of the video stream: a key frame at 2 s and a frame that
  is no key frame at 1 s.
\<close>

definition sample_context :: SegmentContext where
  "sample_context =
     zero_context\<lparr>number := 1, time := 2000000, has_video := 1,
                  avf := sample_host\<lparr>pb := True\<rparr>\<rparr>"

definition key_packet :: AVPacket where
  "key_packet = \<lparr>stream_index = 0, pts = 50, duration = 1, flags = 1\<rparr>"


text \<open>
  The fields that \<open>segment_end\<close>, \<open>segment_start\<close> and the code after \<open>fail\<close> never
  write: everything but \<open>number\<close>, \<open>avf\<close>, \<open>list_pb\<close> and \<open>start_time\<close>.
\<close>

definition cut_frame :: "SegmentContext \<Rightarrow> SegmentContext \<Rightarrow> bool" where
  "cut_frame seg seg' \<longleftrightarrow>
     format seg' = format seg \<and> list seg' = list seg \<and> list_size seg' = list_size seg \<and>
     wrap seg' = wrap seg \<and> time_str seg' = time_str seg \<and> time seg' = time seg \<and>
     times_str seg' = times_str seg \<and> times seg' = times seg \<and>
     delta_str seg' = delta_str seg \<and> delta seg' = delta seg \<and>
     nb_times seg' = nb_times seg \<and> has_video seg' = has_video seg \<and>
     end_time seg' = end_time seg"

text \<open>
  Two readings of a trace: the number of segments whose header was written without
  error, and the records printed to the list file (whatever file they went to).
\<close>

fun segments_started :: "event list \<Rightarrow> nat" where
  "segments_started [] = 0"
| "segments_started (Write_header f r # es) = (if r <s 0 then 0 else 1) + segments_started es"
| "segments_started (e # es) = segments_started es"

fun list_records :: "event list \<Rightarrow> (string \<times> real \<times> real) list" where
  "list_records [] = []"
| "list_records (List_printf f a b # es) = (f, a, b) # list_records es"
| "list_records (e # es) = list_records es"


definition list_inv :: "state \<Rightarrow> bool" where
  "list_inv st \<longleftrightarrow>
     (let seg = fst st; ev = snd st; k = segments_started ev;
          L = nat (sint (list_size seg)) in
      length (list_records ev) = k - 1 \<and>
      list_file ev [] = drop (((k - 1) div L) * L - 1) (list_records ev))"

text \<open>
  The packets handed to \<open>write_packet\<close> in a trace, each with the file it went to; the
  collaborators none of whose calls from \<open>segment_end\<close> and \<open>segment_start\<close> fails; and
  what is read off the result of \<open>seg_write_packet\<close> in the examples.
\<close>

fun written :: "event list \<Rightarrow> (string \<times> AVPacket) list" where
  "written [] = []"
| "written (Write_packet f p r # es) = (f, p) # written es"
| "written (e # es) = written es"









section \<open>Basic facts\<close>



lemma av_compare_ts_nonneg:
  "0 \<le>s av_compare_ts ts_a tb_a ts_b tb_b \<longleftrightarrow>
     sint ts_b * (sint (num tb_b) * sint (den tb_a))
       \<le> sint ts_a * (sint (num tb_a) * sint (den tb_b))"
  by (simp add: av_compare_ts_def Let_def word_sle_eq)






lemma cut_frame_refl: "cut_frame seg seg"
  by (simp add: cut_frame_def)

lemma cut_frame_trans: "cut_frame a b \<Longrightarrow> cut_frame b c \<Longrightarrow> cut_frame a c"
  by (simp add: cut_frame_def)

lemma segment_end_frame: "cut_frame seg (fst (snd (segment_end c (seg, ev))))"
  by (simp add: segment_end_def cut_frame_def Let_def split: option.splits prod.splits)


lemma segment_start_frame: "cut_frame seg (fst (snd (segment_start c t (seg, ev))))"
  by (simp add: segment_start_def cut_frame_def Let_def split: option.splits prod.splits)


lemma packet_fail_frame: "cut_frame seg (fst (snd (packet_fail r (seg, ev))))"
  by (simp add: packet_fail_def cut_frame_def)


lemma packet_write_frame: "cut_frame seg (fst (snd (packet_write c pkt (seg, ev))))"
  by (simp add: packet_write_def packet_fail_def cut_frame_def Let_def)

lemma packet_write_keeps:
  "start_time (fst (snd (packet_write c pkt (seg, ev)))) = start_time seg"
  "number (fst (snd (packet_write c pkt (seg, ev)))) = number seg"
  "filename (avf (fst (snd (packet_write c pkt (seg, ev))))) = filename (avf seg)"
  "end_time (fst (snd (packet_write c pkt (seg, ev)))) = end_time seg"
  "fst (packet_write c pkt (seg, ev)) = write_packet c (length ev) pkt"
  by (simp_all add: packet_write_def packet_fail_def Let_def)





lemma written_append: "written (es @ es') = written es @ written es'"
  by (induction es rule: written.induct) auto







lemma written_drop_trans:
  assumes "ev1 = ev @ es1" and "ev2 = ev1 @ es2"
  shows "written (drop (length ev) ev2)
           = written (drop (length ev) ev1) @ written (drop (length ev1) ev2)"
  using assms by (simp add: written_append)


section \<open>The trace of the entry points\<close>

lemma segments_started_append:
  "segments_started (es @ es') = segments_started es + segments_started es'"
  by (induction es rule: segments_started.induct) auto

lemma list_records_append: "list_records (es @ es') = list_records es @ list_records es'"
  by (induction es rule: list_records.induct) auto

lemma list_file_append: "list_file (es @ es') acc = list_file es' (list_file es acc)"
  by (induction es acc rule: list_file.induct) auto

lemma sless_not_zero: "r <s 0 \<Longrightarrow> r \<noteq> 0"
  by (auto simp: word_sless_alt)

lemma error_codes_not_zero:
  "AVERROR EINVAL \<noteq> 0" "AVERROR ENOMEM \<noteq> 0" "AVERROR_MUXER_NOT_FOUND \<noteq> 0"
  by (simp_all add: AVERROR_def EINVAL_def ENOMEM_def AVERROR_MUXER_NOT_FOUND_def)

lemma header_fail_zero:
  "header_fail b r st = (0, st') \<longleftrightarrow> r = 0 \<and> st' = st"
  by (cases st) (auto simp: header_fail_def)


lemma sle_iff_not_sless: "0 \<le>s r \<longleftrightarrow> \<not> r <s 0"
  by (auto simp: word_sle_eq word_sless_alt)





section \<open>Arithmetic of the counter\<close>

lemma sint_word_of_int_small:
  "- (2 ^ 31) \<le> x \<Longrightarrow> x < 2 ^ 31 \<Longrightarrow> sint (word_of_int x :: cint) = x"
  by (simp add: sint_sbintrunc' signed_take_bit_int_eq_self)


lemma c_rem_sint:
  assumes "0 \<le> sint a" and "0 < sint b"
  shows "sint (c_rem a b) = sint a mod sint b"
proof -
  have "sint a smod sint b = sint a mod sint b"
    using assms by (cases "sint a = 0") (simp_all add: signed_modulo_int_def sgn_if)
  moreover have "0 \<le> sint a mod sint b" "sint a mod sint b < sint b"
    using assms by simp_all
  moreover have "sint b < 2 ^ 31"
    using sint_lt [of b] by simp
  ultimately show ?thesis
    using sint_word_of_int_small [of "sint a mod sint b"] by (simp add: c_rem_def)
qed

lemma c_rem_eq_0_iff:
  assumes "0 \<le> sint a" and "0 < sint b"
  shows "c_rem a b = 0 \<longleftrightarrow> sint a mod sint b = 0"
  using c_rem_sint [OF assms] by (metis sint_0 signed_word_eqI)


lemma div_pred_eq:
  fixes k L :: nat
  assumes "k mod L \<noteq> 0"
  shows "(k - 1) div L = k div L"
proof (cases "L = 0")
  case True
  then show ?thesis by simp
next
  case False
  then have lt: "k mod L < L" by simp
  have "k = k div L * L + k mod L" by simp
  then have eq: "k - 1 = k div L * L + (k mod L - 1)"
    using assms by linarith
  have "k mod L - 1 < L"
    using lt by simp
  then have "(k mod L - 1) div L = 0"
    by (rule div_less)
  then have "(k div L * L + (k mod L - 1)) div L = k div L"
    using False by simp
  with eq show ?thesis by simp
qed

lemma drop_rotation:
  fixes k L :: nat
  assumes "length rs = k - 1" and "1 \<le> k" and "0 < L"
  shows "drop ((k div L) * L - 1) (rs @ [x]) =
           (if k mod L = 0 then [x] else drop (((k - 1) div L) * L - 1) rs @ [x])"
proof (cases "k mod L = 0")
  case True
  then have "(k div L) * L = k" by auto
  then show ?thesis using True assms by simp
next
  case False
  have "(k div L) * L \<le> k" by simp
  then have "(k div L) * L - 1 \<le> k - 1" by (rule diff_le_mono)
  then have "(k div L) * L - 1 \<le> length rs" using assms(1) by simp
  then show ?thesis
    using False div_pred_eq [OF False] by simp
qed

section \<open>Invariants of a run\<close>

lemma trace_of_logs:
  "segments_started (map Av_log msgs) = 0" "list_records (map Av_log msgs) = []"
  "list_file (map Av_log msgs) acc = acc"
  by (induction msgs) simp_all

lemma seg_write_header_trace:
  assumes "seg_write_header c s (seg0, ev0) = Some (0, (seg, ev))"
  shows "\<exists>hs. ev = ev0 @ hs \<and> segments_started hs = 1 \<and> list_records hs = [] \<and>
           (\<forall>acc. list_file hs acc = (if list seg0 = None then acc else []))"
  using assms
  by (auto simp: seg_write_header_def Let_def header_fail_zero error_codes_not_zero
      trace_of_logs segments_started_append list_records_append list_file_append
      sle_iff_not_sless
      dest: sless_not_zero split: option.splits prod.splits if_splits)


lemma list_inv_header:
  assumes "seg_write_header c s (seg0, []) = Some (0, (seg, ev))" and "list seg0 \<noteq> None"
  shows "list_inv (seg, ev)"
proof -
  from seg_write_header_trace [OF assms(1)] assms(2)
  have "segments_started ev = 1" "list_records ev = []" "list_file ev [] = []" by auto
  then show ?thesis by (simp add: list_inv_def)
qed



section \<open>The array of cut points\<close>






section \<open>The cut target\<close>







section \<open>The return value of segment_end\<close>

text \<open>
  When the list file is not rotated, \<open>segment_end\<close> returns what \<open>write_trailer\<close>
  returned.
\<close>

lemma segment_end_returns_trailer_code:
  assumes "write_trailer c = Some f"
    and "list seg = None \<or> list_size seg = 0 \<or> c_rem (number seg) (list_size seg) \<noteq> 0"
  shows "fst (segment_end c (seg, ev)) = f (length ev)"
  using assms by (auto simp: segment_end_def Let_def split: option.splits)

text \<open>
  Claim C7 says that \<open>segment_end\<close> returns the error code of a failed \<open>write_trailer\<close>
  in every case, also when the list file is rotated on the same call. Here the trailer
  fails with -5, the list file is rotated (\<open>number = 1\<close>, \<open>list_size = 1\<close>) and reopened
  with success: the failure is logged, the record is written and the sink is closed,
  but the value returned is 0, what \<open>avio_open2\<close> returned.
\<close>

theorem segment_end_loses_trailer_error:
  "segment_end (sample_collaborators\<lparr>write_trailer := Some (\<lambda>k. - 5)\<rparr>)
     (zero_context\<lparr>number := 1, list := Some ''list'', list_size := 1, list_pb := True\<rparr>, [])
   = (0, (zero_context\<lparr>number := 1, list := Some ''list'', list_size := 1, list_pb := True\<rparr>,
      [Write_trailer [] (- 5), Av_log (Failure_ending []), List_close, List_open ''list'' 0,
       List_printf [] 0 0, List_flush, Avio_close [], Opt_free, Freep_priv_data]))"
  by (simp add: segment_end_def sample_collaborators_def zero_context_def c_rem_def Let_def
      word_sless_alt signed_modulo_int_def)

section \<open>The cut decision\<close>





section \<open>What a packet does to the segment times\<close>







section \<open>The end time across a cut\<close>

text \<open>
  Claim C10. A packet that starts a new segment leaves \<open>end_time\<close> as it was: whatever
  \<open>segment_end\<close>, \<open>segment_start\<close> and \<open>write_packet\<close> return, only \<open>number\<close>, \<open>avf\<close>,
  \<open>list_pb\<close> and \<open>start_time\<close> may change. So \<open>end_time\<close> is never reset: it changes only
  on a packet that starts no segment and has a timestamp, to that packet's
  \<open>(pts + duration) * time_base\<close>, and it never decreases.
\<close>

theorem cut_leaves_end_time:
  assumes idx: "0 \<le> sint (stream_index pkt)"
      "sint (stream_index pkt) < int (length (streams (avf seg)))"
    and e: "end_pts seg = Some e"
    and st: "st = streams (avf seg) ! nat (sint (stream_index pkt))"
  shows "\<exists>ret seg' ev'.
     seg_write_packet c s (seg, ev) pkt = Some (ret, (seg', ev')) \<and>
     (cut_condition seg st pkt e \<longrightarrow> cut_frame seg seg') \<and>
     (end_time seg' \<noteq> end_time seg \<longrightarrow>
        \<not> cut_condition seg st pkt e \<and> pts pkt \<noteq> AV_NOPTS_VALUE \<and>
        end_time seg' = real_of_int (sint (pts pkt + duration pkt)) * av_q2d (time_base st)) \<and>
     end_time seg \<le> end_time seg'"
proof (cases "cut_condition seg st pkt e")
  case True
  let ?ev = "ev @ [Av_log (Next_segment (stream_index pkt) (pts pkt))]"
  obtain r1 seg1 ev1 where e1: "segment_end c (seg, ?ev) = (r1, (seg1, ev1))"
    by (metis prod.exhaust)
  have f1: "cut_frame seg seg1"
    using segment_end_frame [of seg c ?ev] e1 by simp
  obtain r2 seg2 ev2 where e2: "segment_start c (filename s) (seg1, ev1) = (r2, (seg2, ev2))"
    by (metis prod.exhaust)
  have f2: "cut_frame seg seg2"
  proof -
    have "cut_frame seg1 seg2"
      using segment_start_frame [of seg1 c "filename s" ev1] e2 by simp
    with f1 show ?thesis by (rule cut_frame_trans)
  qed
  let ?seg = "seg2\<lparr>start_time := real_of_int (sint (pts pkt)) * av_q2d (time_base st)\<rparr>"
  have f3: "cut_frame seg ?seg"
    using f2 by (simp add: cut_frame_def)
  have run: "seg_write_packet c s (seg, ev) pkt =
      Some (if r1 <s 0 then packet_fail r1 (seg1, ev1)
            else if r2 <s 0 then packet_fail r2 (seg2, ev2)
            else packet_write c pkt (?seg, ev2))"
    using True idx e st e1 e2 by (simp add: seg_write_packet_def Let_def)
  obtain ret seg' ev' where res: "seg_write_packet c s (seg, ev) pkt = Some (ret, (seg', ev'))"
    using run by (metis prod.exhaust)
  have "cut_frame seg seg'"
  proof (cases "r1 <s 0")
    case True
    with run res have "packet_fail r1 (seg1, ev1) = (ret, (seg', ev'))" by simp
    with packet_fail_frame [of seg1 r1 ev1] have "cut_frame seg1 seg'" by simp
    with f1 show ?thesis by (rule cut_frame_trans)
  next
    case r1: False
    show ?thesis
    proof (cases "r2 <s 0")
      case True
      with run res r1 have "packet_fail r2 (seg2, ev2) = (ret, (seg', ev'))" by simp
      with packet_fail_frame [of seg2 r2 ev2] have "cut_frame seg2 seg'" by simp
      with f2 show ?thesis by (rule cut_frame_trans)
    next
      case False
      with run res r1 have "packet_write c pkt (?seg, ev2) = (ret, (seg', ev'))" by simp
      with packet_write_frame [of ?seg c pkt ev2] have "cut_frame ?seg seg'" by simp
      with f3 show ?thesis by (rule cut_frame_trans)
    qed
  qed
  then show ?thesis
    using res True by (auto simp: cut_frame_def)
next
  case False
  let ?seg = "if pts pkt \<noteq> AV_NOPTS_VALUE
     then seg\<lparr>end_time := FFMAX (end_time seg)
               (real_of_int (sint (pts pkt + duration pkt)) * av_q2d (time_base st))\<rparr>
     else seg"
  have run: "seg_write_packet c s (seg, ev) pkt = Some (packet_write c pkt (?seg, ev))"
    using False idx e st by (simp add: seg_write_packet_def Let_def)
  obtain ret seg' ev' where pw: "packet_write c pkt (?seg, ev) = (ret, (seg', ev'))"
    by (metis prod.exhaust)
  have "end_time seg' = end_time ?seg"
    using packet_write_keeps(4) [of c pkt ?seg ev] pw by simp
  then have "(end_time seg' \<noteq> end_time seg \<longrightarrow>
        pts pkt \<noteq> AV_NOPTS_VALUE \<and>
        end_time seg' = real_of_int (sint (pts pkt + duration pkt)) * av_q2d (time_base st)) \<and>
     end_time seg \<le> end_time seg'"
    by (auto simp: FFMAX_def split: if_splits)
  then show ?thesis
    using run pw False by auto
qed


theorem cut_leaves_end_time_witness:
  "\<exists>ret seg' ev'.
     seg_write_packet sample_collaborators sample_host (sample_context, []) key_packet
       = Some (ret, (seg', ev')) \<and>
     cut_frame sample_context seg' \<and> end_time seg' = 0"
proof -
  have h1: "0 \<le> sint (stream_index key_packet)"
    by (simp add: key_packet_def)
  have h2: "sint (stream_index key_packet) < int (length (streams (avf sample_context)))"
    by (simp add: key_packet_def sample_context_def sample_host_def)
  have h3: "end_pts sample_context = Some 2000000"
    by (simp add: end_pts_def sample_context_def zero_context_def)
  have h4: "video_stream = streams (avf sample_context) ! nat (sint (stream_index key_packet))"
    by (simp add: key_packet_def sample_context_def sample_host_def)
  have h5: "cut_condition sample_context video_stream key_packet 2000000"
    by (simp add: cut_condition_def av_compare_ts_nonneg AV_TIME_BASE_Q_def key_packet_def
        sample_context_def zero_context_def video_stream_def AV_PKT_FLAG_KEY_def)
  have h6: "end_time sample_context = 0"
    by (simp add: sample_context_def zero_context_def)
  show ?thesis
    using cut_leaves_end_time [OF h1 h2 h3 h4, of sample_collaborators sample_host "[]"]
      h5 h6 by (auto simp: cut_frame_def)
qed

end
